theory Spec2Isabelle
  imports Complex_Main
begin

section \<open>Values: Python strings and SQLite storage classes\<close>

text \<open>
  A Python \<open>str\<close> is a sequence of Unicode code points, so a string is a list of code
  point numbers; \<open>U\<close> turns an ASCII literal into one.  The rupee sign of the source is the
  single code point 8377.
\<close>

type_synonym ustring = "nat list"

definition U :: "string \<Rightarrow> ustring" where
  "U s = map of_char s"

definition rupee :: ustring where
  "rupee = [8377]"

subsection \<open>String methods of Python used by the program\<close>

text \<open>\<open>s.ljust(w)\<close>, \<open>s.rjust(w)\<close> and \<open>s.center(w)\<close> pad with spaces and never truncate.\<close>

definition ljust :: "nat \<Rightarrow> ustring \<Rightarrow> ustring" where
  "ljust w s = s @ replicate (w - length s) 32"

definition rjust :: "nat \<Rightarrow> ustring \<Rightarrow> ustring" where
  "rjust w s = replicate (w - length s) 32 @ s"

definition center :: "nat \<Rightarrow> ustring \<Rightarrow> ustring" where
  "center w s =
     (if w \<le> length s then s
      else (let marg = w - length s;
                left = marg div 2 + (if odd marg \<and> odd w then 1 else 0)
            in replicate left 32 @ s @ replicate (marg - left) 32))"



text \<open>
  \<open>s.strip()\<close> and the decimal reading and printing of integers, \<open>int(s)\<close> and \<open>str(n)\<close>.
  \<open>int\<close> strips white space, takes one sign, and allows single underscores between
  digits; \<open>None\<close> is its \<open>ValueError\<close>.  Decimal digits of scripts other than ASCII are
  outside the model.
\<close>

definition is_space :: "nat \<Rightarrow> bool" where
  "is_space c =
     (c \<in> set [9, 10, 11, 12, 13, 28, 29, 30, 31, 32, 133, 160, 5760, 8232, 8233, 8239, 8287, 12288]
      \<or> (8192 \<le> c \<and> c \<le> 8202))"

definition strip :: "ustring \<Rightarrow> ustring" where
  "strip s = rev (dropWhile is_space (rev (dropWhile is_space s)))"

definition is_digit :: "nat \<Rightarrow> bool" where
  "is_digit c = (48 \<le> c \<and> c \<le> 57)"

fun digits :: "nat \<Rightarrow> bool \<Rightarrow> ustring \<Rightarrow> nat option" where
  "digits acc after_digit [] = (if after_digit then Some acc else None)"
| "digits acc after_digit (c # cs) =
     (if is_digit c then digits (10 * acc + (c - 48)) True cs
      else if c = 95 \<and> after_digit \<and> cs \<noteq> [] \<and> is_digit (hd cs) then digits acc False cs
      else None)"

definition py_int :: "ustring \<Rightarrow> int option" where
  "py_int s =
     (case strip s of
        [] \<Rightarrow> None
      | c # cs \<Rightarrow>
          if c = 45 then map_option (\<lambda>n. - int n) (digits 0 False cs)
          else if c = 43 then map_option int (digits 0 False cs)
          else map_option int (digits 0 False (c # cs)))"

fun dec :: "nat \<Rightarrow> ustring" where
  "dec n = (if n < 10 then [48 + n] else dec (n div 10) @ [48 + n mod 10])"

declare dec.simps [simp del]

definition py_str :: "int \<Rightarrow> ustring" where
  "py_str i = (if i < 0 then 45 # dec (nat (- i)) else dec (nat i))"

text \<open>
  \<open>round(x, 2)\<close>: to the nearest multiple of one hundredth, a tie going to the even one.
\<close>

definition round_half_even :: "real \<Rightarrow> int" where
  "round_half_even x =
     (let f = \<lfloor>x\<rfloor>; d = x - of_int f
      in if d < 1 / 2 then f else if 1 / 2 < d then f + 1 else if even f then f else f + 1)"

definition round2 :: "real \<Rightarrow> real" where
  "round2 x = of_int (round_half_even (x * 100)) / 100"

subsection \<open>SQLite storage classes\<close>

text \<open>
  The columns declared \<open>REAL\<close> have REAL affinity but are dynamically typed: a row holds
  \<open>NULL\<close>, a number, or a text that is not a numeric literal (the dialogs bind the text of
  their line edits, and an empty field arrives as the empty text).  Numbers are modelled as
  mathematical reals: the rounding of IEEE doubles and the values \<open>nan\<close> and \<open>inf\<close> are
  outside the model.  The \<open>TEXT\<close> columns the program reads back may be \<open>NULL\<close>; the ones it
  only writes hold the bound text.
\<close>

datatype sqlval = SNull | SReal real | SText ustring

datatype error = TypeError | ValueError | ZeroDivisionError | IndexError | PrintError

datatype outcome =
    Accepted
  | Warning ustring
  | Information ustring
  | Critical error
  | Raised error

text \<open>
  What the program takes from its platform: Python's \<open>float\<close> on a string (\<open>None\<close> is its
  \<open>ValueError\<close>), the text Python prints for a float, SQLite's test for a well-formed numeric
  literal (used by the REAL affinity on storing a text), SQLite's numeric value of a text
  operand of \<open>+\<close>, and whether the standard output can encode a text.
\<close>

record host =
  py_float :: "ustring \<Rightarrow> real option"
  py_repr :: "real \<Rightarrow> ustring"
  sql_literal :: "ustring \<Rightarrow> real option"
  sql_cast :: "ustring \<Rightarrow> real"
  stdout_ok :: "ustring \<Rightarrow> bool"

text \<open>Python truth value of a fetched column, and \<open>float(v)\<close>.\<close>

fun truthy :: "sqlval \<Rightarrow> bool" where
  "truthy SNull = False"
| "truthy (SReal r) = (r \<noteq> 0)"
| "truthy (SText s) = (s \<noteq> [])"

fun to_float :: "host \<Rightarrow> sqlval \<Rightarrow> error + real" where
  "to_float h SNull = Inl TypeError"
| "to_float h (SReal r) = Inr r"
| "to_float h (SText s) = (case py_float h s of None \<Rightarrow> Inl ValueError | Some r \<Rightarrow> Inr r)"

text \<open>Storing a bound text in a column of REAL affinity.\<close>

definition real_affinity :: "host \<Rightarrow> ustring \<Rightarrow> sqlval" where
  "real_affinity h s = (case sql_literal h s of Some r \<Rightarrow> SReal r | None \<Rightarrow> SText s)"

text \<open>The SQL expression \<open>StockQty + ?\<close> with a float bound to the parameter.\<close>

fun sql_add :: "host \<Rightarrow> sqlval \<Rightarrow> real \<Rightarrow> sqlval" where
  "sql_add h SNull q = SNull"
| "sql_add h (SReal a) q = SReal (a + q)"
| "sql_add h (SText t) q = SReal (sql_cast h t + q)"

section \<open>The database of \<open>init_db\<close>\<close>

record item_row =
  ItemID :: nat
  Name :: ustring
  Code :: "ustring option"
  Category :: "ustring option"
  HSN :: "ustring option"
  BaseUnit :: ustring
  SecondaryUnit :: "ustring option"
  ConversionRate :: sqlval
  RateA :: sqlval
  RateB :: sqlval
  RateC :: sqlval
  PurchaseRate :: sqlval
  StockQty :: sqlval
  AlertLevel :: sqlval
  ImagePath :: "ustring option"

record customer_row =
  CustomerID :: nat
  CustomerName :: ustring
  GSTIN :: "ustring option"
  Area :: "ustring option"

record purchase_row =
  PurchaseID :: nat
  PurchaseDate :: ustring
  Supplier :: ustring
  PurchaseItemID :: nat
  PurchaseUnit :: ustring
  PurchaseQty :: sqlval
  PurchaseRateCol :: sqlval

record adjustment_row =
  AdjID :: nat
  AdjDate :: ustring
  AdjItemID :: nat
  QtyChange :: sqlval
  AdjUnit :: ustring
  Reason :: ustring

text \<open>
  The tables in row order; \<open>Settings\<close> is the key/value table.  The \<open>Seq\<close> fields are the
  AUTOINCREMENT counters (the largest row id ever used in the table).
\<close>

record db =
  Items :: "item_row list"
  ItemsSeq :: nat
  Customers :: "customer_row list"
  CustomersSeq :: nat
  Purchases :: "purchase_row list"
  PurchasesSeq :: nat
  StockAdjustments :: "adjustment_row list"
  StockAdjustmentsSeq :: nat
  Settings :: "(ustring \<times> ustring option) list"

text \<open>\<open>SELECT ... FROM Items WHERE Name=?\<close> followed by \<open>fetchone()\<close>: the first match.\<close>

definition fetch_item :: "db \<Rightarrow> ustring \<Rightarrow> item_row option" where
  "fetch_item d item_name = find (\<lambda>r. Name r = item_name) (Items d)"

section \<open>The stock update helper\<close>

text \<open>
  \<open>update_stock(item_name, unit, qty_change)\<close>.  A missing item returns at once.  The
  division is Python's float division, which raises on a zero divisor.  An exception leaves
  the function before the UPDATE, so the result is either an error or the committed database.
\<close>

definition add_to_stock :: "host \<Rightarrow> ustring \<Rightarrow> real \<Rightarrow> item_row \<Rightarrow> item_row" where
  "add_to_stock h item_name q r =
     (if Name r = item_name then r\<lparr>StockQty := sql_add h (StockQty r) q\<rparr> else r)"

definition update_stock :: "host \<Rightarrow> db \<Rightarrow> ustring \<Rightarrow> ustring \<Rightarrow> real \<Rightarrow> error + db" where
  "update_stock h d item_name unit qty_change =
     (case fetch_item d item_name of
        None \<Rightarrow> Inr d
      | Some row \<Rightarrow>
          (if Some unit = SecondaryUnit row \<and> truthy (ConversionRate row) then
             (case to_float h (ConversionRate row) of
                Inl e \<Rightarrow> Inl e
              | Inr c \<Rightarrow>
                  if c = 0 then Inl ZeroDivisionError
                  else Inr (d\<lparr>Items := map (add_to_stock h item_name (qty_change / c)) (Items d)\<rparr>))
           else Inr (d\<lparr>Items := map (add_to_stock h item_name qty_change) (Items d)\<rparr>)))"

section \<open>Bill numbers\<close>

text \<open>
  \<open>init_db\<close> creates the tables when they are missing and inserts the counter unless the key
  is there (\<open>INSERT OR IGNORE\<close>); \<open>empty_db\<close> is the database of a new file.
\<close>

definition empty_db :: db where
  "empty_db = \<lparr>Items = [], ItemsSeq = 0, Customers = [], CustomersSeq = 0, Purchases = [],
     PurchasesSeq = 0, StockAdjustments = [], StockAdjustmentsSeq = 0, Settings = []\<rparr>"

definition init_db :: "db \<Rightarrow> db" where
  "init_db d =
     (if U ''LastBillNo'' \<in> set (map fst (Settings d)) then d
      else d\<lparr>Settings := Settings d @ [(U ''LastBillNo'', Some (U ''1000''))]\<rparr>)"

text \<open>
  \<open>get_next_bill_no()\<close>: \<open>fetchone()[0]\<close> on no row and \<open>int(None)\<close> are \<open>TypeError\<close>s.
\<close>

definition set_last_bill_no :: "ustring \<Rightarrow> ustring \<times> ustring option \<Rightarrow> ustring \<times> ustring option" where
  "set_last_bill_no v kv = (if fst kv = U ''LastBillNo'' then (fst kv, Some v) else kv)"


section \<open>The receipt\<close>

text \<open>
  A billed item is the tuple \<open>(item, unit, qty, rate, total)\<close> of texts read from the billing
  table.  \<open>print_receipt\<close> is the list \<open>receipt\<close> of the source; what is printed is its
  \<open>join_lines\<close>.
\<close>

type_synonym bill_item = "ustring \<times> ustring \<times> ustring \<times> ustring \<times> ustring"

definition width :: nat where
  "width = 48"

fun item_line :: "bill_item \<Rightarrow> ustring" where
  "item_line (item, unit, qty, rate, total') =
     (let item_str = ljust 16 (take 16 item);
          unit_str = ljust 6 (take 6 unit);
          qty_str = rjust 6 (take 6 qty);
          rate_str = rjust 8 (take 8 rate);
          total_str = rjust 8 (take 8 total')
      in item_str @ unit_str @ qty_str @ rate_str @ total_str)"

definition print_receipt ::
  "ustring \<Rightarrow> ustring \<Rightarrow> ustring \<Rightarrow> bill_item list \<Rightarrow> ustring \<Rightarrow> ustring \<Rightarrow> ustring list" where
  "print_receipt bill_no customer date items totalqty grand =
     [replicate width 45,
      center width (U ''        SUNIL STORES''),
      replicate width 45,
      ljust (width div 2) (U ''Bill No: '' @ bill_no) @ rjust (width div 2) (U ''Customer: '' @ customer),
      U ''Date: '' @ date,
      replicate width 45,
      ljust 16 (U ''Item'') @ ljust 6 (U ''Unit'') @ ljust 6 (U ''Qty'') @ ljust 8 (U ''Rate'')
        @ ljust 8 (U ''Total''),
      replicate width 45]
     @ map item_line items
     @ [replicate width 45,
        ljust (width div 2) (U ''Total Qty: '' @ totalqty)
          @ rjust (width div 2) (U ''Grand: '' @ rupee @ grand),
        replicate width 45,
        center width (U ''         THANK YOU FOR SHOPPING''),
        replicate width 45]"

section \<open>The dialogs\<close>

text \<open>
  A dialog is the record of the texts of its widgets.  \<open>accept\<close> returns the database and
  what the user sees: \<open>Accepted\<close> when \<open>super().accept()\<close> closes the dialog, a message box,
  or an exception that leaves the slot (\<open>Raised\<close>).
\<close>

record ItemDialog =
  name :: ustring
  code :: ustring
  category :: ustring
  hsn :: ustring
  baseunit :: ustring
  secondaryunit :: ustring
  conversion :: ustring
  ratea :: ustring
  rateb :: ustring
  ratec :: ustring
  purchaserate :: ustring
  stockqty :: ustring
  alertlevel :: ustring
  imagepath :: ustring

text \<open>The \<open>UNIQUE\<close> constraint of \<open>Code\<close>; \<open>NULL\<close>s do not collide.\<close>

definition unique_codes :: "item_row list \<Rightarrow> bool" where
  "unique_codes rows = distinct (List.map_filter Code rows)"

definition item_update :: "host \<Rightarrow> ItemDialog \<Rightarrow> item_row \<Rightarrow> item_row" where
  "item_update h w r =
     (if Name r = name w then
        r\<lparr>Code := Some (code w), Category := Some (category w), HSN := Some (hsn w),
          BaseUnit := baseunit w, SecondaryUnit := Some (secondaryunit w),
          ConversionRate := real_affinity h (conversion w), RateA := real_affinity h (ratea w),
          RateB := real_affinity h (rateb w), RateC := real_affinity h (ratec w),
          PurchaseRate := real_affinity h (purchaserate w),
          StockQty := real_affinity h (stockqty w), AlertLevel := real_affinity h (alertlevel w),
          ImagePath := Some (imagepath w)\<rparr>
      else r)"

definition item_insert :: "host \<Rightarrow> nat \<Rightarrow> ItemDialog \<Rightarrow> item_row" where
  "item_insert h i w =
     \<lparr>ItemID = i, Name = name w, Code = Some (code w), Category = Some (category w),
      HSN = Some (hsn w), BaseUnit = baseunit w, SecondaryUnit = Some (secondaryunit w),
      ConversionRate = real_affinity h (conversion w), RateA = real_affinity h (ratea w),
      RateB = real_affinity h (rateb w), RateC = real_affinity h (ratec w),
      PurchaseRate = real_affinity h (purchaserate w),
      StockQty = real_affinity h (stockqty w), AlertLevel = real_affinity h (alertlevel w),
      ImagePath = Some (imagepath w)\<rparr>"

text \<open>
  \<open>ItemDialog.accept\<close>.  A statement that breaks the \<open>UNIQUE\<close> constraint raises
  \<open>IntegrityError\<close> and changes nothing; the handler shows a warning.
\<close>

definition ItemDialog_accept :: "host \<Rightarrow> db \<Rightarrow> ItemDialog \<Rightarrow> db \<times> outcome" where
  "ItemDialog_accept h d w =
     (if name w = [] \<or> baseunit w = [] \<or> ratea w = [] then
        (d, Warning (U ''Name, Base Unit, and Rate A are required.''))
      else if name w \<in> set (map Name (Items d)) then
        (let rows = map (item_update h w) (Items d)
         in if unique_codes rows then (d\<lparr>Items := rows\<rparr>, Accepted)
            else (d, Warning (U ''Duplicate item code or name.'')))
      else
        (let rows = Items d @ [item_insert h (ItemsSeq d + 1) w]
         in if unique_codes rows then (d\<lparr>Items := rows, ItemsSeq := ItemsSeq d + 1\<rparr>, Accepted)
            else (d, Warning (U ''Duplicate item code or name.''))))"

record CustomerDialog =
  customer_name :: ustring
  gstin :: ustring
  area :: ustring

text \<open>
  \<open>CustomerDialog.accept\<close>.  The INSERT runs only for a name that no row has, so the
  \<open>UNIQUE\<close> constraint of \<open>Customers.Name\<close> cannot fail there.
\<close>

definition customer_update :: "CustomerDialog \<Rightarrow> customer_row \<Rightarrow> customer_row" where
  "customer_update w r =
     (if CustomerName r = customer_name w then r\<lparr>GSTIN := Some (gstin w), Area := Some (area w)\<rparr>
      else r)"

definition CustomerDialog_accept :: "db \<Rightarrow> CustomerDialog \<Rightarrow> db \<times> outcome" where
  "CustomerDialog_accept d w =
     (if customer_name w = [] then (d, Warning (U ''Name is required.''))
      else if customer_name w \<in> set (map CustomerName (Customers d)) then
        (d\<lparr>Customers := map (customer_update w) (Customers d)\<rparr>, Accepted)
      else
        (d\<lparr>Customers := Customers d
              @ [\<lparr>CustomerID = CustomersSeq d + 1, CustomerName = customer_name w,
                  GSTIN = Some (gstin w), Area = Some (area w)\<rparr>],
           CustomersSeq := CustomersSeq d + 1\<rparr>, Accepted))"

record StockAdjustDialog =
  adj_item :: ustring
  adj_qty :: ustring
  adj_unit :: ustring
  adj_reason :: ustring

text \<open>
  \<open>StockAdjustDialog.accept\<close>; \<open>now\<close> is the text of the current date and time.  The stock
  update is committed before the adjustment is logged.
\<close>

definition StockAdjustDialog_accept ::
  "host \<Rightarrow> ustring \<Rightarrow> db \<Rightarrow> StockAdjustDialog \<Rightarrow> db \<times> outcome" where
  "StockAdjustDialog_accept h now d w =
     (if adj_qty w = [] \<or> adj_reason w = [] then (d, Warning (U ''Qty and Reason required.''))
      else
        (case py_float h (adj_qty w) of
           None \<Rightarrow> (d, Raised ValueError)
         | Some q \<Rightarrow>
             (case update_stock h d (adj_item w) (adj_unit w) q of
                Inl e \<Rightarrow> (d, Raised e)
              | Inr d1 \<Rightarrow>
                  (case fetch_item d1 (adj_item w) of
                     None \<Rightarrow> (d1, Raised TypeError)
                   | Some row \<Rightarrow>
                       (d1\<lparr>StockAdjustments := StockAdjustments d1
                              @ [\<lparr>AdjID = StockAdjustmentsSeq d1 + 1, AdjDate = now,
                                  AdjItemID = ItemID row,
                                  QtyChange = real_affinity h (adj_qty w),
                                  AdjUnit = adj_unit w, Reason = adj_reason w\<rparr>],
                            StockAdjustmentsSeq := StockAdjustmentsSeq d1 + 1\<rparr>,
                        Accepted)))))"

section \<open>Purchase entry\<close>

record PurchasesTab =
  supplier :: ustring
  item_combo :: ustring
  unit_combo :: ustring
  qty_edit :: ustring
  rate_edit :: ustring


section \<open>Billing\<close>

text \<open>
  The rate cell of a billing row is a combo box, or the label or line edit that replaces it
  when the price is edited by hand; each carries its text.
\<close>

datatype rate_widget = QComboBox ustring | QLabel ustring | QLineEdit ustring

record bill_row =
  row_item :: ustring
  row_unit :: ustring
  row_rate :: rate_widget
  row_qty :: ustring
  row_total :: ustring

record BillingTab =
  bill_no :: ustring
  customer_combo :: ustring
  date_edit :: ustring
  table :: "bill_row list"
  subtotal_lbl :: ustring
  totalqty_lbl :: ustring
  discount_edit :: ustring
  grandtotal_lbl :: ustring





subsection \<open>The rates offered in a billing row\<close>

text \<open>
  The rate list of \<open>BillingTab.update_item_row\<close> for the fetched row and the text of the
  unit combo.  Dividing a text, or by a text, is a \<open>TypeError\<close>.
\<close>

fun converted_rate :: "host \<Rightarrow> ustring \<Rightarrow> sqlval \<Rightarrow> sqlval \<Rightarrow> error + ustring list" where
  "converted_rate h label SNull conv = Inr []"
| "converted_rate h label (SReal r) (SReal c) =
     (if c = 0 then Inl ZeroDivisionError
      else Inr [label @ rupee @ py_repr h (round2 (r / c))])"
| "converted_rate h label r conv = Inl TypeError"

fun plain_rate :: "host \<Rightarrow> ustring \<Rightarrow> sqlval \<Rightarrow> ustring list" where
  "plain_rate h label SNull = []"
| "plain_rate h label (SReal r) = [label @ rupee @ py_repr h r]"
| "plain_rate h label (SText t) = [label @ rupee @ t]"

definition update_item_row_rates :: "host \<Rightarrow> item_row \<Rightarrow> ustring \<Rightarrow> error + ustring list" where
  "update_item_row_rates h row current_unit =
     (let selected_unit = (if current_unit \<noteq> [] then current_unit else BaseUnit row);
          conv = ConversionRate row
      in if Some selected_unit = SecondaryUnit row \<and> truthy conv \<and> conv \<noteq> SReal 0 then
           (case converted_rate h (U ''Rate A: '') (RateA row) conv of
              Inl e \<Rightarrow> Inl e
            | Inr a \<Rightarrow>
                (case converted_rate h (U ''Rate B: '') (RateB row) conv of
                   Inl e \<Rightarrow> Inl e
                 | Inr b \<Rightarrow>
                     (case converted_rate h (U ''Rate C: '') (RateC row) conv of
                        Inl e \<Rightarrow> Inl e
                      | Inr c \<Rightarrow> Inr (a @ b @ c))))
         else Inr (plain_rate h (U ''Rate A: '') (RateA row)
                   @ plain_rate h (U ''Rate B: '') (RateB row)
                   @ plain_rate h (U ''Rate C: '') (RateC row)))"



section \<open>Transactions\<close>

text \<open>
  A sale is a completed \<open>print_and_finish\<close>, a purchase a completed \<open>add_stock\<close> (each ends
  with its information box); \<open>run_events\<close> is \<open>None\<close> when an event of the sequence does not
  complete.
\<close>

datatype event = Sale BillingTab | Purchase ustring PurchasesTab




section \<open>The specification's notions\<close>

text \<open>
  \<open>stock_of\<close> is the \<open>StockQty\<close> that \<open>SELECT StockQty FROM Items WHERE Name=?\<close> fetches, and
  \<open>stock_num\<close> the number SQLite's \<open>+\<close> reads in a stored value (\<open>NULL\<close> has none; it
  absorbs the addition).
\<close>

definition stock_of :: "db \<Rightarrow> ustring \<Rightarrow> sqlval option" where
  "stock_of d item_name = map_option StockQty (fetch_item d item_name)"


text \<open>
  The transactions in the words of the specification.  \<open>base_qty\<close> is a quantity converted
  to base units: divided by the conversion rate when it is given in the item's secondary
  unit and the rate is a number other than zero.  \<open>billed_qty\<close> adds up what a billing table
  bills of an item (the rows with a quantity above zero), \<open>event_delta\<close> is the signed
  quantity of one transaction.
\<close>

definition base_qty :: "item_row \<Rightarrow> ustring \<Rightarrow> real \<Rightarrow> real" where
  "base_qty row u q =
     (case ConversionRate row of
        SReal c \<Rightarrow> if Some u = SecondaryUnit row \<and> c \<noteq> 0 then q / c else q
      | other \<Rightarrow> q)"

fun billed_qty :: "host \<Rightarrow> item_row \<Rightarrow> bill_row list \<Rightarrow> real" where
  "billed_qty h row [] = 0"
| "billed_qty h row (r # rs) =
     (case py_float h (row_qty r) of
        Some q \<Rightarrow>
          if row_item r = Name row \<and> row_item r \<noteq> [] \<and> row_qty r \<noteq> [] \<and> 0 < q
          then base_qty row (row_unit r) q else 0
      | None \<Rightarrow> 0)
     + billed_qty h row rs"

fun event_delta :: "host \<Rightarrow> item_row \<Rightarrow> event \<Rightarrow> real" where
  "event_delta h row (Sale w) = - billed_qty h row (table w)"
| "event_delta h row (Purchase now w) =
     (case py_float h (qty_edit w) of
        Some q \<Rightarrow> if item_combo w = Name row then base_qty row (unit_combo w) q else 0
      | None \<Rightarrow> 0)"

text \<open>
  A conversion rate that is \<open>NULL\<close>, a number or the empty text: what the schema and the
  item dialog's validator produce.
\<close>

definition plain_conversion :: "item_row \<Rightarrow> bool" where
  "plain_conversion row = (case ConversionRate row of SText t \<Rightarrow> t = [] | other \<Rightarrow> True)"

text \<open>What the second loop of \<open>print_and_finish\<close> takes off an item, over the gathered tuples.\<close>

fun sold :: "host \<Rightarrow> item_row \<Rightarrow> bill_item list \<Rightarrow> real" where
  "sold h row [] = 0"
| "sold h row ((item, unit, qty, rest) # items) =
     (case py_float h qty of
        Some q \<Rightarrow> if item = Name row then base_qty row unit q else 0
      | None \<Rightarrow> 0)
     + sold h row items"





text \<open>
  A row holds what a save submitted: the texts in the \<open>TEXT\<close> columns, and in the \<open>REAL\<close>
  columns the texts as the REAL affinity stores them.
\<close>

definition holds_submitted :: "host \<Rightarrow> ItemDialog \<Rightarrow> item_row \<Rightarrow> bool" where
  "holds_submitted h w r =
     (Name r = name w \<and> Code r = Some (code w) \<and> Category r = Some (category w)
      \<and> HSN r = Some (hsn w) \<and> BaseUnit r = baseunit w
      \<and> SecondaryUnit r = Some (secondaryunit w)
      \<and> ConversionRate r = real_affinity h (conversion w)
      \<and> RateA r = real_affinity h (ratea w) \<and> RateB r = real_affinity h (rateb w)
      \<and> RateC r = real_affinity h (ratec w)
      \<and> PurchaseRate r = real_affinity h (purchaserate w)
      \<and> StockQty r = real_affinity h (stockqty w)
      \<and> AlertLevel r = real_affinity h (alertlevel w)
      \<and> ImagePath r = Some (imagepath w))"


section \<open>A small shop\<close>

text \<open>
  A host that reads and prints whole numbers only, and a database with two items: rice is
  kept in bags of 25 kg, soap was saved with every optional field left empty.
\<close>

definition example_host :: host where
  "example_host =
     \<lparr>py_float = (\<lambda>s. map_option of_int (py_int s)),
      py_repr = (\<lambda>r. py_str \<lfloor>r\<rfloor>),
      sql_literal = (\<lambda>s. map_option of_int (py_int s)),
      sql_cast = (\<lambda>s. case py_int s of Some i \<Rightarrow> of_int i | None \<Rightarrow> 0),
      stdout_ok = (\<lambda>s. True)\<rparr>"

definition rice :: item_row where
  "rice =
     \<lparr>ItemID = 1, Name = U ''Rice'', Code = Some (U ''R1''), Category = Some [], HSN = Some [],
      BaseUnit = U ''Bag'', SecondaryUnit = Some (U ''Kg''), ConversionRate = SReal 25,
      RateA = SReal 1000, RateB = SReal 950, RateC = SNull, PurchaseRate = SReal 800,
      StockQty = SReal 10, AlertLevel = SReal 2, ImagePath = Some []\<rparr>"

definition soap :: item_row where
  "soap =
     \<lparr>ItemID = 2, Name = U ''Soap'', Code = Some (U ''S1''), Category = Some [], HSN = Some [],
      BaseUnit = U ''Piece'', SecondaryUnit = Some [], ConversionRate = SText [],
      RateA = SReal 30, RateB = SText [], RateC = SText [], PurchaseRate = SText [],
      StockQty = SText [], AlertLevel = SText [], ImagePath = Some []\<rparr>"

definition example_db :: db where
  "example_db = init_db (empty_db\<lparr>Items := [rice, soap], ItemsSeq := 2\<rparr>)"

text \<open>
  The small shop with the stock of rice, the bill counter and the purchases as parameters,
  two bills for the same goods to different customers at different rates, and one purchase.
\<close>

definition shop :: "real \<Rightarrow> ustring \<Rightarrow> purchase_row list \<Rightarrow> db" where
  "shop s last_bill ps =
     \<lparr>Items = [rice\<lparr>StockQty := SReal s\<rparr>, soap], ItemsSeq = 2, Customers = [], CustomersSeq = 0,
      Purchases = ps, PurchasesSeq = length ps, StockAdjustments = [], StockAdjustmentsSeq = 0,
      Settings = [(U ''LastBillNo'', Some last_bill)]\<rparr>"





text \<open>An edit of the rice item, and the row it leaves.\<close>

definition rice_edit :: ItemDialog where
  "rice_edit =
     \<lparr>name = U ''Rice'', code = U ''R1'', category = [], hsn = [], baseunit = U ''Bag'',
      secondaryunit = U ''Kg'', conversion = U ''25'', ratea = U ''1100'', rateb = U ''1050'',
      ratec = [], purchaserate = U ''900'', stockqty = U ''20'', alertlevel = U ''2'',
      imagepath = []\<rparr>"

definition rice_saved :: item_row where
  "rice_saved =
     \<lparr>ItemID = 1, Name = U ''Rice'', Code = Some (U ''R1''), Category = Some [], HSN = Some [],
      BaseUnit = U ''Bag'', SecondaryUnit = Some (U ''Kg''), ConversionRate = SReal 25,
      RateA = SReal 1100, RateB = SReal 1050, RateC = SText [], PurchaseRate = SReal 900,
      StockQty = SReal 20, AlertLevel = SReal 2, ImagePath = Some []\<rparr>"

text \<open>Three submissions with a required field left empty, and an item with long fields.\<close>

definition nameless_item :: ItemDialog where
  "nameless_item =
     \<lparr>name = [], code = U ''T1'', category = [], hsn = [], baseunit = U ''Kg'',
      secondaryunit = [], conversion = [], ratea = U ''40'', rateb = [], ratec = [],
      purchaserate = [], stockqty = U ''5'', alertlevel = [], imagepath = []\<rparr>"

definition nameless_customer :: CustomerDialog where
  "nameless_customer = \<lparr>customer_name = [], gstin = U ''29ABCDE1234F1Z5'', area = U ''Market''\<rparr>"

definition reasonless_adjustment :: StockAdjustDialog where
  "reasonless_adjustment =
     \<lparr>adj_item = U ''Rice'', adj_qty = U ''3'', adj_unit = U ''Bag'', adj_reason = []\<rparr>"

definition long_item :: bill_item where
  "long_item = (U ''Basmati Rice Premium 25kg'', U ''Kilogram'', U ''1234567.5'', U ''1000'', U ''1234567500'')"

section \<open>Properties\<close>

subsection \<open>The stock update helper\<close>

lemma fetch_item_None: "(\<forall>r \<in> set (Items d). Name r \<noteq> n) \<Longrightarrow> fetch_item d n = None"
  by (simp add: fetch_item_def find_None_iff)

text \<open>
  C9: \<open>update_stock\<close> for a name that no row of \<open>Items\<close> has returns without an error and
  leaves the whole database as it was.
\<close>

theorem update_stock_unknown_item:
  assumes "\<forall>r \<in> set (Items d). Name r \<noteq> item_name"
  shows "update_stock h d item_name u qty_change = Inr d"
  using assms by (simp add: update_stock_def fetch_item_None)

lemma U_simps: "U [] = []" "U (c # cs) = of_char c # U cs"
  by (simp_all add: U_def)

lemma ex_items: "Items example_db = [rice, soap]"
  by (simp add: example_db_def init_db_def empty_db_def)

theorem update_stock_unknown_item_witness:
  "U ''Salt'' \<notin> set (map Name (Items example_db))
   \<and> update_stock example_host example_db (U ''Salt'') (U ''Kg'') 5 = Inr example_db"
  using update_stock_unknown_item [of example_db "U ''Salt''" example_host "U ''Kg''" 5]
  by (simp add: ex_items rice_def soap_def U_simps)

lemma add_to_stock_Name [simp]: "Name (add_to_stock h n q r) = Name r"
  by (simp add: add_to_stock_def)

lemma add_to_stock_other: "Name r \<noteq> n \<Longrightarrow> add_to_stock h n q r = r"
  by (simp add: add_to_stock_def)

lemma add_to_stock_columns: "(add_to_stock h n q r)\<lparr>StockQty := StockQty r\<rparr> = r"
  by (simp add: add_to_stock_def)

lemma update_stock_Items:
  assumes "update_stock h d n u q = Inr d'"
  shows "\<exists>q'. d' = d\<lparr>Items := map (add_to_stock h n q') (Items d)\<rparr> \<or> d' = d"
  using assms
  by (auto simp: update_stock_def split: option.splits if_splits sum.splits)

lemma distinct_names_index:
  assumes "distinct (map Name rows)" "i < length rows" "j < length rows"
    "Name (rows ! i) = Name (rows ! j)"
  shows "i = j"
  using assms by (metis distinct_conv_nth length_map nth_map)

text \<open>
  C10: a call of \<open>update_stock\<close> that returns changes nothing but \<open>Items\<close>; there it keeps
  the number and order of the rows, every row of another name, and every column but
  \<open>StockQty\<close> of the rows of the given name.  Where names are distinct (which the item dialog
  maintains) at most one row changes.  A call that raises has written nothing.
\<close>

theorem update_stock_frame:
  assumes "update_stock h d item_name u qty_change = Inr d'"
  shows "d' = d\<lparr>Items := Items d'\<rparr>
    \<and> length (Items d') = length (Items d)
    \<and> (\<forall>i < length (Items d).
          (Items d' ! i)\<lparr>StockQty := StockQty (Items d ! i)\<rparr> = Items d ! i
          \<and> (Name (Items d ! i) \<noteq> item_name \<longrightarrow> Items d' ! i = Items d ! i))
    \<and> (distinct (map Name (Items d)) \<longrightarrow>
          (\<forall>i < length (Items d). \<forall>j < length (Items d).
             Items d' ! i \<noteq> Items d ! i \<and> Items d' ! j \<noteq> Items d ! j \<longrightarrow> i = j))"
proof -
  from update_stock_Items [OF assms] obtain q'
    where "d' = d\<lparr>Items := map (add_to_stock h item_name q') (Items d)\<rparr> \<or> d' = d"
    by blast
  then show ?thesis
  proof
    assume eq: "d' = d\<lparr>Items := map (add_to_stock h item_name q') (Items d)\<rparr>"
    have changed: "Name (Items d ! i) = item_name"
      if "i < length (Items d)" "Items d' ! i \<noteq> Items d ! i" for i
      using that eq by (auto simp: add_to_stock_def split: if_splits)
    have "i = j" if "distinct (map Name (Items d))" "i < length (Items d)" "j < length (Items d)"
      "Items d' ! i \<noteq> Items d ! i" "Items d' ! j \<noteq> Items d ! j" for i j
      using that changed distinct_names_index by metis
    then show ?thesis
      using eq by (auto simp: add_to_stock_columns add_to_stock_other)
  next
    assume "d' = d"
    then show ?thesis by simp
  qed
qed


lemma find_map_same:
  assumes "\<And>x. P (f x) = P x"
  shows "find P (map f xs) = map_option f (find P xs)"
  using assms by (induction xs) auto

lemma fetch_item_add_to_stock:
  "fetch_item (d\<lparr>Items := map (add_to_stock h m q) (Items d)\<rparr>) n
     = map_option (add_to_stock h m q) (fetch_item d n)"
  by (simp add: fetch_item_def find_map_same)

lemma fetch_item_Name: "fetch_item d n = Some row \<Longrightarrow> Name row = n"
  by (auto simp: fetch_item_def find_Some_iff)





text \<open>A \<open>StockQty\<close> that is \<open>NULL\<close> stays \<open>NULL\<close>: in SQL, \<open>NULL + ?\<close> is \<open>NULL\<close>.\<close>

lemma update_stock_null_stock:
  assumes "fetch_item d n = Some row" "StockQty row = SNull" "update_stock h d n u q = Inr d'"
  shows "stock_of d' n = Some SNull"
proof -
  from update_stock_Items [OF assms(3)] obtain q'
    where "d' = d\<lparr>Items := map (add_to_stock h n q') (Items d)\<rparr> \<or> d' = d"
    by blast
  with assms(1,2) fetch_item_Name [OF assms(1)] show ?thesis
    by (auto simp: stock_of_def fetch_item_add_to_stock add_to_stock_def)
qed


lemma ex_fetch_rice: "fetch_item example_db (U ''Rice'') = Some rice"
  by (simp add: fetch_item_def ex_items rice_def U_simps)


theorem update_stock_frame_witness:
  "update_stock example_host example_db (U ''Rice'') (U ''Kg'') 50
     = Inr (example_db\<lparr>Items := [rice\<lparr>StockQty := SReal 12\<rparr>, soap]\<rparr>)
   \<and> distinct (map Name (Items example_db))
   \<and> Name (Items example_db ! 1) \<noteq> U ''Rice''
   \<and> (1::nat) < length (Items example_db)
   \<and> Items (example_db\<lparr>Items := [rice\<lparr>StockQty := SReal 12\<rparr>, soap]\<rparr>) ! 1 = Items example_db ! 1
   \<and> (Items (example_db\<lparr>Items := [rice\<lparr>StockQty := SReal 12\<rparr>, soap]\<rparr>) ! 0)
        \<lparr>StockQty := StockQty (Items example_db ! 0)\<rparr> = Items example_db ! 0"
proof -
  have run: "update_stock example_host example_db (U ''Rice'') (U ''Kg'') 50
     = Inr (example_db\<lparr>Items := [rice\<lparr>StockQty := SReal 12\<rparr>, soap]\<rparr>)"
    by (simp add: update_stock_def ex_fetch_rice)
      (simp add: ex_items add_to_stock_def rice_def soap_def U_simps)
  have names: "distinct (map Name (Items example_db))" "Name (Items example_db ! 1) \<noteq> U ''Rice''"
    by (simp_all add: ex_items rice_def soap_def U_simps)
  from update_stock_frame [OF run] names run show ?thesis
    by (simp add: ex_items)
qed

subsection \<open>Required fields\<close>

text \<open>
  C7: when a required field is empty (name, base unit or rate A of the item dialog; the name
  of the customer dialog; quantity or reason of the stock adjustment dialog), \<open>accept\<close> shows
  the validation warning, does not accept the dialog, and returns the database it was given.
\<close>

theorem required_fields_atomic:
  "(name w = [] \<or> baseunit w = [] \<or> ratea w = [] \<longrightarrow>
      fst (ItemDialog_accept h d w) = d \<and> (\<exists>m. snd (ItemDialog_accept h d w) = Warning m))
   \<and> (customer_name cw = [] \<longrightarrow>
      fst (CustomerDialog_accept d cw) = d \<and> (\<exists>m. snd (CustomerDialog_accept d cw) = Warning m))
   \<and> (adj_qty aw = [] \<or> adj_reason aw = [] \<longrightarrow>
      fst (StockAdjustDialog_accept h now d aw) = d
      \<and> (\<exists>m. snd (StockAdjustDialog_accept h now d aw) = Warning m))"
  by (simp add: ItemDialog_accept_def CustomerDialog_accept_def StockAdjustDialog_accept_def)

theorem required_fields_atomic_witness:
  "name nameless_item = []
   \<and> ItemDialog_accept example_host example_db nameless_item
       = (example_db, Warning (U ''Name, Base Unit, and Rate A are required.''))
   \<and> customer_name nameless_customer = []
   \<and> CustomerDialog_accept example_db nameless_customer
       = (example_db, Warning (U ''Name is required.''))
   \<and> adj_reason reasonless_adjustment = []
   \<and> StockAdjustDialog_accept example_host (U ''2024-06-01 10:00:00'') example_db
         reasonless_adjustment
       = (example_db, Warning (U ''Qty and Reason required.''))"
  using required_fields_atomic [where w = nameless_item and cw = nameless_customer
      and aw = reasonless_adjustment and h = example_host and d = example_db
      and now = "U ''2024-06-01 10:00:00''"]
  by (simp add: nameless_item_def nameless_customer_def reasonless_adjustment_def
      ItemDialog_accept_def CustomerDialog_accept_def StockAdjustDialog_accept_def)

subsection \<open>The receipt\<close>

lemma replicate_4: "replicate 4 x = [x, x, x, x]"
  by (simp add: numeral_eq_Suc)

lemma length_ljust_take [simp]: "length (ljust n (take n s)) = n"
  by (simp add: ljust_def)

lemma length_rjust_take [simp]: "length (rjust n (take n s)) = n"
  by (simp add: rjust_def)

lemma length_item_line: "length (item_line x) = 44"
  by (cases x) (simp add: Let_def)

lemma print_receipt_length:
  "length (print_receipt b c dt items tq g) = 13 + length items"
  by (simp add: print_receipt_def)

lemma print_receipt_item:
  "k < length items \<Longrightarrow> print_receipt b c dt items tq g ! (8 + k) = item_line (items ! k)"
  by (simp add: print_receipt_def nth_append)

lemma print_receipt_rule:
  "i \<in> {0, 2, 5, 7, 8 + length items, 10 + length items, 12 + length items}
   \<Longrightarrow> print_receipt b c dt items tq g ! i = replicate 48 45"
  by (auto simp: print_receipt_def nth_append width_def nth_Cons')

text \<open>
  C8: for every list of billed items the seven separator lines of the receipt are 48 dashes,
  and the line of the k-th item is the name cut and padded to 16 characters, the unit to 6,
  the quantity to 6, the rate to 8 and the total to 8, hence 44 characters whatever the
  lengths of the fields.
\<close>

theorem print_receipt_fixed_width:
  "(\<forall>i \<in> {0, 2, 5, 7, 8 + length items, 10 + length items, 12 + length items}.
      print_receipt b c dt items tq g ! i = replicate 48 45)
   \<and> length (print_receipt b c dt items tq g) = 13 + length items
   \<and> (\<forall>k < length items.
        (case items ! k of (item, unit, qty, rate, total') \<Rightarrow>
           print_receipt b c dt items tq g ! (8 + k)
             = ljust 16 (take 16 item) @ ljust 6 (take 6 unit) @ rjust 6 (take 6 qty)
               @ rjust 8 (take 8 rate) @ rjust 8 (take 8 total')
           \<and> length (ljust 16 (take 16 item)) = 16 \<and> length (ljust 6 (take 6 unit)) = 6
           \<and> length (rjust 6 (take 6 qty)) = 6 \<and> length (rjust 8 (take 8 rate)) = 8
           \<and> length (rjust 8 (take 8 total')) = 8)
        \<and> length (print_receipt b c dt items tq g ! (8 + k)) = 44)"
proof (intro conjI allI impI ballI)
  fix i assume "i \<in> {0, 2, 5, 7, 8 + length items, 10 + length items, 12 + length items}"
  then show "print_receipt b c dt items tq g ! i = replicate 48 45"
    by (rule print_receipt_rule)
next
  show "length (print_receipt b c dt items tq g) = 13 + length items"
    by (rule print_receipt_length)
next
  fix k assume k: "k < length items"
  show "case items ! k of (item, unit, qty, rate, total') \<Rightarrow>
           print_receipt b c dt items tq g ! (8 + k)
             = ljust 16 (take 16 item) @ ljust 6 (take 6 unit) @ rjust 6 (take 6 qty)
               @ rjust 8 (take 8 rate) @ rjust 8 (take 8 total')
           \<and> length (ljust 16 (take 16 item)) = 16 \<and> length (ljust 6 (take 6 unit)) = 6
           \<and> length (rjust 6 (take 6 qty)) = 6 \<and> length (rjust 8 (take 8 rate)) = 8
           \<and> length (rjust 8 (take 8 total')) = 8"
    using k by (cases "items ! k") (simp add: print_receipt_item Let_def)
next
  fix k assume k: "k < length items"
  then show "length (print_receipt b c dt items tq g ! (8 + k)) = 44"
    by (simp add: print_receipt_item length_item_line)
qed

theorem print_receipt_fixed_width_witness:
  "(0::nat) < length [long_item]
   \<and> print_receipt (U ''1001'') (U ''Asha'') (U ''01-06-2024 10:00 AM'') [long_item] (U ''1.0'') (U ''1000.0'') ! 8
       = U ''Basmati Rice PreKilogr123456    100012345675''
   \<and> length (print_receipt (U ''1001'') (U ''Asha'') (U ''01-06-2024 10:00 AM'') [long_item] (U ''1.0'') (U ''1000.0'') ! 8) = 44
   \<and> print_receipt (U ''1001'') (U ''Asha'') (U ''01-06-2024 10:00 AM'') [long_item] (U ''1.0'') (U ''1000.0'') ! 9
       = replicate 48 45"
proof -
  note fw = print_receipt_fixed_width [of "[long_item]" "U ''1001''" "U ''Asha''"
      "U ''01-06-2024 10:00 AM''" "U ''1.0''" "U ''1000.0''"]
  have "length (print_receipt (U ''1001'') (U ''Asha'') (U ''01-06-2024 10:00 AM'') [long_item]
      (U ''1.0'') (U ''1000.0'') ! 8) = 44"
    using fw by simp
  moreover have "print_receipt (U ''1001'') (U ''Asha'') (U ''01-06-2024 10:00 AM'') [long_item]
      (U ''1.0'') (U ''1000.0'') ! 9 = replicate 48 45"
    using fw by simp
  moreover have "print_receipt (U ''1001'') (U ''Asha'') (U ''01-06-2024 10:00 AM'') [long_item]
      (U ''1.0'') (U ''1000.0'') ! 8 = U ''Basmati Rice PreKilogr123456    100012345675''"
    by (simp add: print_receipt_def long_item_def U_simps ljust_def rjust_def replicate_4)
  ultimately show ?thesis by simp
qed

subsection \<open>Bill numbers\<close>













lemma keys_set_last_bill_no: "map fst (map (set_last_bill_no v) kvs) = map fst kvs"
  by (induction kvs) (auto simp: set_last_bill_no_def)





subsection \<open>The rates offered\<close>









text \<open>
  What the dialog stores for a tier left empty is the empty text, not \<open>NULL\<close>: in the base
  unit it is offered with nothing after the rupee sign, and in the secondary unit the
  division raises.
\<close>

lemma empty_text_rate:
  assumes "RateA row = SReal a" "RateB row = SText []" "RateC row = SNull"
    and "ConversionRate row = SReal c" "c \<noteq> 0"
  shows "Some (if current \<noteq> [] then current else BaseUnit row) \<noteq> SecondaryUnit row \<Longrightarrow>
           update_item_row_rates h row current
             = Inr [U ''Rate A: '' @ rupee @ py_repr h a, U ''Rate B: '' @ rupee]"
    and "Some (if current \<noteq> [] then current else BaseUnit row) = SecondaryUnit row \<Longrightarrow>
           update_item_row_rates h row current = Inl TypeError"
  using assms by (simp_all add: update_item_row_rates_def Let_def)


lemma round2_example: "round2 (1000 / 3) = 33333 / 100"
proof -
  have "\<lfloor>(100000::real) / 3\<rfloor> = 33333" by simp
  then show ?thesis by (simp add: round2_def round_half_even_def Let_def)
qed


subsection \<open>Saving an item\<close>

lemma real_affinity_cases:
  "(sql_literal h s = None \<and> real_affinity h s = SText s)
   \<or> (\<exists>r. sql_literal h s = Some r \<and> real_affinity h s = SReal r)"
  by (cases "sql_literal h s") (simp_all add: real_affinity_def)

lemma item_update_keys [simp]:
  "Name (item_update h w r) = Name r" "ItemID (item_update h w r) = ItemID r"
  by (simp_all add: item_update_def)

lemma item_update_other: "Name r \<noteq> name w \<Longrightarrow> item_update h w r = r"
  by (simp add: item_update_def)

lemma item_update_holds: "Name r = name w \<Longrightarrow> holds_submitted h w (item_update h w r)"
  by (simp add: item_update_def holds_submitted_def)

lemma item_insert_holds: "holds_submitted h w (item_insert h i w)"
  by (simp add: item_insert_def holds_submitted_def)

lemma find_append:
  "find P (xs @ ys) = (case find P xs of None \<Rightarrow> find P ys | Some x \<Rightarrow> Some x)"
  by (induction xs) auto

lemma find_in_set: "x \<in> set xs \<Longrightarrow> P x \<Longrightarrow> \<exists>y. find P xs = Some y"
  by (induction xs) auto

lemma ItemDialog_accept_cases:
  assumes "ItemDialog_accept h d w = (d', Accepted)"
  shows "(name w \<in> set (map Name (Items d)) \<and> d' = d\<lparr>Items := map (item_update h w) (Items d)\<rparr>)
    \<or> (name w \<notin> set (map Name (Items d))
        \<and> d' = d\<lparr>Items := Items d @ [item_insert h (ItemsSeq d + 1) w],
                 ItemsSeq := ItemsSeq d + 1\<rparr>)"
  using assms
  by (auto simp: ItemDialog_accept_def Let_def split: if_splits)

lemma saved_update:
  assumes "name w \<in> set (map Name (Items d))" "d' = d\<lparr>Items := map (item_update h w) (Items d)\<rparr>"
  shows "(\<exists>row. fetch_item d' (name w) = Some row \<and> holds_submitted h w row)
    \<and> (\<forall>row \<in> set (Items d'). Name row = name w \<longrightarrow> holds_submitted h w row)
    \<and> map ItemID (Items d') = map ItemID (Items d) \<and> map Name (Items d') = map Name (Items d)
    \<and> (\<forall>row \<in> set (Items d). Name row \<noteq> name w \<longrightarrow> row \<in> set (Items d'))"
proof -
  from assms(1) obtain r where r: "r \<in> set (Items d)" "Name r = name w"
    by auto
  then obtain y where y: "find (\<lambda>r. Name r = name w) (Items d) = Some y"
    using find_in_set [of r "Items d" "\<lambda>r. Name r = name w"] by blast
  then have "Name y = name w"
    by (auto simp: find_Some_iff)
  with y have "fetch_item d' (name w) = Some (item_update h w y)"
    "holds_submitted h w (item_update h w y)"
    using assms(2) by (simp_all add: fetch_item_def find_map_same item_update_holds)
  moreover have "\<forall>row \<in> set (Items d'). Name row = name w \<longrightarrow> holds_submitted h w row"
    using assms(2) by (auto simp: item_update_holds)
  moreover have "\<forall>row \<in> set (Items d). Name row \<noteq> name w \<longrightarrow> row \<in> set (Items d')"
  proof (intro ballI impI)
    fix row assume row: "row \<in> set (Items d)" "Name row \<noteq> name w"
    from row(1) have "item_update h w row \<in> item_update h w ` set (Items d)"
      by (rule imageI)
    moreover from row(2) have "item_update h w row = row"
      by (rule item_update_other)
    ultimately show "row \<in> set (Items d')" using assms(2) by simp
  qed
  ultimately show ?thesis
    using assms(2) by (simp add: comp_def)
qed

lemma saved_insert:
  assumes "name w \<notin> set (map Name (Items d))"
    "d' = d\<lparr>Items := Items d @ [item_insert h (ItemsSeq d + 1) w], ItemsSeq := ItemsSeq d + 1\<rparr>"
  shows "(\<exists>row. fetch_item d' (name w) = Some row \<and> holds_submitted h w row)
    \<and> (\<forall>row \<in> set (Items d'). Name row = name w \<longrightarrow> holds_submitted h w row)
    \<and> (\<forall>row \<in> set (Items d). Name row \<noteq> name w \<longrightarrow> row \<in> set (Items d'))"
proof -
  have "find (\<lambda>r. Name r = name w) (Items d) = None"
    using assms(1) by (force simp: find_None_iff)
  then have "fetch_item d' (name w) = Some (item_insert h (ItemsSeq d + 1) w)"
    using assms(2) item_insert_holds [of h w "ItemsSeq d + 1"]
    by (simp add: fetch_item_def find_append holds_submitted_def)
  moreover have "\<forall>row \<in> set (Items d'). Name row = name w \<longrightarrow> holds_submitted h w row"
  proof (intro ballI impI)
    fix row assume "row \<in> set (Items d')" "Name row = name w"
    with assms have "row = item_insert h (ItemsSeq d + 1) w"
      by force
    then show "holds_submitted h w row"
      by (simp add: item_insert_holds)
  qed
  ultimately show ?thesis
    using assms(2) by (simp add: item_insert_holds)
qed

text \<open>
  C6: after a save that the item dialog accepts, the row of \<open>Items\<close> with the submitted name
  (every such row) holds the values of that save in all columns other than \<open>ItemID\<close>; for a
  name already there the rows keep their number, order, ids and names (an update, no second
  row), for a new name one row is appended; rows of other names stay; and names that were
  distinct remain distinct.
\<close>

theorem ItemDialog_accept_stores:
  assumes "ItemDialog_accept h d w = (d', Accepted)"
  shows "(\<exists>row. fetch_item d' (name w) = Some row \<and> holds_submitted h w row)
    \<and> (\<forall>row \<in> set (Items d'). Name row = name w \<longrightarrow> holds_submitted h w row)
    \<and> (name w \<in> set (map Name (Items d)) \<longrightarrow>
          map ItemID (Items d') = map ItemID (Items d) \<and> map Name (Items d') = map Name (Items d))
    \<and> (name w \<notin> set (map Name (Items d)) \<longrightarrow>
          (\<exists>row. Items d' = Items d @ [row] \<and> ItemID row = ItemsSeq d + 1))
    \<and> (\<forall>row \<in> set (Items d). Name row \<noteq> name w \<longrightarrow> row \<in> set (Items d'))
    \<and> (distinct (map Name (Items d)) \<longrightarrow> distinct (map Name (Items d')))
    \<and> d' = d\<lparr>Items := Items d', ItemsSeq := ItemsSeq d'\<rparr>"
proof -
  from ItemDialog_accept_cases [OF assms] show ?thesis
  proof (elim disjE conjE)
    assume a: "name w \<in> set (map Name (Items d))"
      "d' = d\<lparr>Items := map (item_update h w) (Items d)\<rparr>"
    from saved_update [OF a] a show ?thesis
      by (simp add: comp_def)
  next
    assume a: "name w \<notin> set (map Name (Items d))"
      "d' = d\<lparr>Items := Items d @ [item_insert h (ItemsSeq d + 1) w],
              ItemsSeq := ItemsSeq d + 1\<rparr>"
    have "Name (item_insert h (ItemsSeq d + 1) w) = name w"
      "ItemID (item_insert h (ItemsSeq d + 1) w) = ItemsSeq d + 1"
      by (simp_all add: item_insert_def)
    with saved_insert [OF a] a show ?thesis
      by simp
  qed
qed

lemma py_int_examples:
  "py_int [] = None" "py_int (U ''25'') = Some 25" "py_int (U ''1100'') = Some 1100"
  "py_int (U ''1050'') = Some 1050" "py_int (U ''900'') = Some 900" "py_int (U ''20'') = Some 20"
  "py_int (U ''2'') = Some 2"
  by (simp_all add: py_int_def U_simps strip_def is_space_def is_digit_def)

lemma rice_edit_affinity:
  "real_affinity example_host (conversion rice_edit) = SReal 25"
  "real_affinity example_host (ratea rice_edit) = SReal 1100"
  "real_affinity example_host (rateb rice_edit) = SReal 1050"
  "real_affinity example_host (ratec rice_edit) = SText []"
  "real_affinity example_host (purchaserate rice_edit) = SReal 900"
  "real_affinity example_host (stockqty rice_edit) = SReal 20"
  "real_affinity example_host (alertlevel rice_edit) = SReal 2"
  by (simp_all add: real_affinity_def example_host_def rice_edit_def py_int_examples)

lemma rice_edit_update:
  "item_update example_host rice_edit rice = rice_saved"
  "item_update example_host rice_edit soap = soap"
  by (simp_all add: item_update_def rice_edit_affinity)
    (simp_all add: rice_edit_def rice_def soap_def rice_saved_def U_simps)

theorem ItemDialog_accept_stores_witness:
  "ItemDialog_accept example_host example_db rice_edit
     = (example_db\<lparr>Items := [rice_saved, soap]\<rparr>, Accepted)
   \<and> name rice_edit \<in> set (map Name (Items example_db))
   \<and> fetch_item (example_db\<lparr>Items := [rice_saved, soap]\<rparr>) (name rice_edit) = Some rice_saved
   \<and> holds_submitted example_host rice_edit rice_saved
   \<and> StockQty rice_saved = SReal 20
   \<and> map ItemID (Items (example_db\<lparr>Items := [rice_saved, soap]\<rparr>)) = map ItemID (Items example_db)"
proof -
  have there: "name rice_edit \<in> set (map Name (Items example_db))"
    by (simp add: ex_items rice_edit_def rice_def)
  have codes: "unique_codes [rice_saved, soap]"
    by (simp add: unique_codes_def rice_saved_def soap_def U_simps)
  have required: "name rice_edit \<noteq> []" "baseunit rice_edit \<noteq> []" "ratea rice_edit \<noteq> []"
    by (simp_all add: rice_edit_def U_simps)
  have run: "ItemDialog_accept example_host example_db rice_edit
      = (example_db\<lparr>Items := [rice_saved, soap]\<rparr>, Accepted)"
    using there codes required
    by (simp add: ItemDialog_accept_def Let_def ex_items rice_edit_update)
  have first: "fetch_item (example_db\<lparr>Items := [rice_saved, soap]\<rparr>) (name rice_edit)
      = Some rice_saved"
    by (simp add: fetch_item_def rice_edit_def rice_saved_def)
  have stock: "StockQty rice_saved = SReal 20"
    by (simp add: rice_saved_def)
  from ItemDialog_accept_stores [OF run] run there first stock show ?thesis
    by simp
qed

subsection \<open>Stock and transactions\<close>

lemma base_qty_stock [simp]: "base_qty (row\<lparr>StockQty := v\<rparr>) u q = base_qty row u q"
  by (simp add: base_qty_def split: sqlval.splits)

lemma sold_stock [simp]: "sold h (row\<lparr>StockQty := v\<rparr>) items = sold h row items"
  by (induction h row items rule: sold.induct) (simp_all split: option.splits)

lemma billed_qty_stock [simp]: "billed_qty h (row\<lparr>StockQty := v\<rparr>) rs = billed_qty h row rs"
  by (induction rs) (auto split: option.splits)

lemma event_delta_stock [simp]: "event_delta h (row\<lparr>StockQty := v\<rparr>) e = event_delta h row e"
  by (cases e) (simp_all split: option.splits)

lemma plain_conversion_stock [simp]: "plain_conversion (row\<lparr>StockQty := v\<rparr>) = plain_conversion row"
  by (simp add: plain_conversion_def)
















lemma example_db_shop: "example_db = shop 10 (U ''1000'') []"
  by (simp add: example_db_def init_db_def empty_db_def shop_def rice_def)















subsection \<open>What a sale and a purchase persist\<close>







lemma add_to_stock_ItemID [simp]: "ItemID (add_to_stock h n q r) = ItemID r"
  by (simp add: add_to_stock_def)







end
